theory Spec2Isabelle
  imports Main "HOL-Library.Word"
begin

unbundle bit_operations_syntax

section \<open>Machine types\<close>

text \<open>
  The driver computes on \<^verbatim>\<open>uint32_t\<close>/\<^verbatim>\<open>__u32\<close> and \<^verbatim>\<open>__s32\<close>/\<^verbatim>\<open>int\<close>.  Both are 32-bit words:
  \<open>s32\<close> marks the fields the source declares signed.  Arithmetic wraps.  A signed operand
  that meets an unsigned one is converted to unsigned, which keeps the bit pattern, so
  mixed expressions are plain word arithmetic; a signed comparison is \<open><s\<close> and a signed
  right shift is \<open>signed_drop_bit\<close>.
\<close>

type_synonym u32 = "32 word"
type_synonym s32 = "32 word"

section \<open>Pixel formats (sunxi\_g2d.h, sunxi\_g2d\_hw.h)\<close>

text \<open>The values of \<^verbatim>\<open>enum g2d_fmt_hw_id\<close> that the code names.\<close>

abbreviation (input) G2D_FORMAT_BGRX8888 :: u32 where "G2D_FORMAT_BGRX8888 \<equiv> 7"
abbreviation (input) G2D_FORMAT_BGR888 :: u32 where "G2D_FORMAT_BGR888 \<equiv> 9"
abbreviation (input) G2D_FORMAT_BGRA5551 :: u32 where "G2D_FORMAT_BGRA5551 \<equiv> 19"
abbreviation (input) G2D_FORMAT_BGRA1010102 :: u32 where "G2D_FORMAT_BGRA1010102 \<equiv> 23"
abbreviation (input) G2D_FORMAT_YUV422UVC_V1U1V0U0 :: u32 where "G2D_FORMAT_YUV422UVC_V1U1V0U0 \<equiv> 0x24"
abbreviation (input) G2D_FORMAT_YUV422UVC_U1V1U0V0 :: u32 where "G2D_FORMAT_YUV422UVC_U1V1U0V0 \<equiv> 0x25"
abbreviation (input) G2D_FORMAT_YUV422_PLANAR :: u32 where "G2D_FORMAT_YUV422_PLANAR \<equiv> 0x26"
abbreviation (input) G2D_FORMAT_YUV420UVC_V1U1V0U0 :: u32 where "G2D_FORMAT_YUV420UVC_V1U1V0U0 \<equiv> 0x28"
abbreviation (input) G2D_FORMAT_YUV420UVC_U1V1U0V0 :: u32 where "G2D_FORMAT_YUV420UVC_U1V1U0V0 \<equiv> 0x29"
abbreviation (input) G2D_FORMAT_YUV420_PLANAR :: u32 where "G2D_FORMAT_YUV420_PLANAR \<equiv> 0x2a"
abbreviation (input) G2D_FORMAT_YUV411UVC_V1U1V0U0 :: u32 where "G2D_FORMAT_YUV411UVC_V1U1V0U0 \<equiv> 0x2c"
abbreviation (input) G2D_FORMAT_YUV411UVC_U1V1U0V0 :: u32 where "G2D_FORMAT_YUV411UVC_U1V1U0V0 \<equiv> 0x2d"
abbreviation (input) G2D_FORMAT_YUV411_PLANAR :: u32 where "G2D_FORMAT_YUV411_PLANAR \<equiv> 0x2e"
abbreviation (input) G2D_FORMAT_YUV10_444 :: u32 where "G2D_FORMAT_YUV10_444 \<equiv> 0x39"

text \<open>\<^verbatim>\<open>struct g2d_fmt\<close>: a catalog entry.\<close>

record g2d_fmt =
  fourcc :: u32
  depth :: s32
  hw_id :: u32

text \<open>
  The fields of the kernel's \<^verbatim>\<open>struct v4l2_pix_format\<close> that the driver reads or writes.
\<close>

record v4l2_pix_format =
  width :: u32
  height :: u32
  pixelformat :: u32
  bytesperline :: u32
  sizeimage :: u32

text \<open>\<^verbatim>\<open>v4l2_fourcc('X', 'R', '2', '4')\<close>, little endian.\<close>

abbreviation (input) V4L2_PIX_FMT_XBGR32 :: u32 where "V4L2_PIX_FMT_XBGR32 \<equiv> 0x34325258"

text \<open>
  The format table is the file-scope array \<^verbatim>\<open>g2d_supported_fmts\<close>.  The functions that read it
  take its contents as their first argument, so that a property can be stated for any
  table as well as for the one the driver ships, which is this list.
\<close>

definition g2d_supported_fmts :: "g2d_fmt list" where
  "g2d_supported_fmts =
     [\<lparr>fourcc = V4L2_PIX_FMT_XBGR32, depth = 32, hw_id = G2D_FORMAT_BGRX8888\<rparr>]"

text \<open>
  \<^verbatim>\<open>find_fmt\<close>: the loop over the table from index \<open>i\<close>.  The result is the pointer
  \<^verbatim>\<open>&g2d_supported_fmts[i]\<close> as its index, \<open>None\<close> for \<^verbatim>\<open>NULL\<close>.
\<close>

function find_fmt_loop :: "g2d_fmt list \<Rightarrow> v4l2_pix_format \<Rightarrow> nat \<Rightarrow> nat option" where
  "find_fmt_loop fmts v4l2_pix_fmt i =
     (if i < length fmts then
        (if fourcc (fmts ! i) = pixelformat v4l2_pix_fmt then Some i
         else find_fmt_loop fmts v4l2_pix_fmt (i + 1))
      else None)"
  by pat_completeness auto
termination
  by (relation "measure (\<lambda>(fmts, p, i). length fmts - i)") auto

declare find_fmt_loop.simps [simp del]

definition find_fmt :: "g2d_fmt list \<Rightarrow> v4l2_pix_format \<Rightarrow> nat option" where
  "find_fmt fmts v4l2_pix_fmt = find_fmt_loop fmts v4l2_pix_fmt 0"

definition v4l2_fmt_to_hw_id :: "g2d_fmt list \<Rightarrow> v4l2_pix_format \<Rightarrow> u32" where
  "v4l2_fmt_to_hw_id fmts v4l2_pix_fmt =
     (case find_fmt fmts v4l2_pix_fmt of
        Some i \<Rightarrow> hw_id (fmts ! i)
      | None \<Rightarrow> G2D_FORMAT_BGRX8888)"

text \<open>
  \<^verbatim>\<open>fmt2yuvcnt\<close>: the three out-parameters are returned as a triple
  \<open>(ycnt, ucnt, vcnt)\<close>; the chain of comparisons is the source's, in its order.
\<close>

definition fmt2yuvcnt :: "u32 \<Rightarrow> u32 \<times> u32 \<times> u32" where
  "fmt2yuvcnt format =
     (if format \<le> G2D_FORMAT_BGRX8888 then (4, 0, 0)
      else if format \<le> G2D_FORMAT_BGR888 then (3, 0, 0)
      else if format \<le> G2D_FORMAT_BGRA5551 then (2, 0, 0)
      else if format \<le> G2D_FORMAT_BGRA1010102 then (4, 0, 0)
      else if format \<le> 0x23 then (2, 0, 0)
      else if format \<le> 0x25 then (1, 2, 0)
      else if format = 0x26 then (1, 1, 1)
      else if format \<le> 0x29 then (1, 2, 0)
      else if format = 0x2a then (1, 1, 1)
      else if format \<le> 0x2d then (1, 2, 0)
      else if format = 0x2e then (1, 1, 1)
      else if format = 0x30 then (1, 0, 0)
      else if format \<le> 0x36 then (2, 4, 0)
      else if format \<le> 0x39 then (6, 0, 0)
      else (0, 0, 0))"

section \<open>Registers and register access (sunxi\_g2d\_hw.c)\<close>

text \<open>
  Modelled from the spec: the register offsets and bit masks of \<^verbatim>\<open>sunxi_g2d_regs.h\<close>, which
  is not among the sources.  The spec describes the register file as a mapping from
  register offset to 32-bit value.  Each offset the modelled functions name is a
  constructor of \<open>g2d_reg\<close> (distinct names are distinct registers); each bit mask they name
  is a field of \<open>g2d_regs_h\<close>, whose value is a parameter \<open>K\<close> of every function that uses one.
\<close>

datatype g2d_reg =
    G2D_AHB_RESET | G2D_MIXER_INT
  | BLD_EN_CTL | BLD_PREMUL_CTL | BLD_CH_ISIZE0 | BLD_CH_ISIZE1
  | BLD_CH_OFFSET0 | BLD_CH_OFFSET1 | BLD_OUT_COLOR | BLD_OUT_SIZE
  | WB_ATT | WB_SIZE | WB_PITCH0 | WB_PITCH1 | WB_PITCH2
  | WB_LADD0 | WB_LADD1 | WB_LADD2
  | V0_ATTCTL | V0_MBSIZE | V0_SIZE | V0_COOR
  | V0_PITCH0 | V0_PITCH1 | V0_PITCH2
  | V0_LADDR0 | V0_LADDR1 | V0_LADDR2

record g2d_regs_h =
  G2D_AHB_MIXER_RESET :: u32
  G2D_AHB_ROT_RESET :: u32
  G2D_MIXER_INT_IRQ_PENDING :: u32
  G2D_MIXER_INT_FINISH_IRQ_EN :: u32
  BLD_PIPE0_EN :: u32
  BLD_PIPE1_EN :: u32
  BLD_PREMUL_CTL_PIPE0_ALPHA_MODE :: u32
  BLD_PREMUL_CTL_PIPE1_ALPHA_MODE :: u32
  BLD_OUT_COLOR_PREMUL_EN :: u32
  WB_SIZE_WIDTH :: u32
  WB_SIZE_HEIGHT :: u32
  V0_ATTCTL_GLBALPHA :: u32
  V0_ATTCTL_PREMUL_CTL :: u32
  V0_ATTCTL_FBFMT :: u32
  V0_ATTCTL_ALPHA_MODE :: u32
  V0_ATTCTL_EN :: u32
  V0_MBSIZE_WIDTH :: u32
  V0_MBSIZE_HEIGHT :: u32

text \<open>
  \<^verbatim>\<open>struct sunxi_g2d\<close>, reduced to the register window behind \<^verbatim>\<open>base\<close>: \<open>base g2d reg\<close> is
  the word a \<^verbatim>\<open>readl\<close> of that register returns.  \<open>mmio_writes\<close> is not a field of the
  source: it records every \<^verbatim>\<open>writel\<close> in order, so that "one write" can be stated.
\<close>

record sunxi_g2d =
  base :: "g2d_reg \<Rightarrow> u32"
  mmio_writes :: "(g2d_reg \<times> u32) list"

definition g2d_read :: "sunxi_g2d \<Rightarrow> g2d_reg \<Rightarrow> u32" where
  "g2d_read g2d reg = base g2d reg"

definition g2d_write :: "sunxi_g2d \<Rightarrow> g2d_reg \<Rightarrow> u32 \<Rightarrow> sunxi_g2d" where
  "g2d_write g2d reg val =
     g2d\<lparr>base := (base g2d)(reg := val), mmio_writes := mmio_writes g2d @ [(reg, val)]\<rparr>"

definition g2d_set_bits :: "sunxi_g2d \<Rightarrow> g2d_reg \<Rightarrow> u32 \<Rightarrow> sunxi_g2d" where
  "g2d_set_bits g2d reg bits = g2d_write g2d reg (g2d_read g2d reg OR bits)"

definition g2d_clr_bits :: "sunxi_g2d \<Rightarrow> g2d_reg \<Rightarrow> u32 \<Rightarrow> sunxi_g2d" where
  "g2d_clr_bits g2d reg bits = g2d_write g2d reg (g2d_read g2d reg AND NOT bits)"

text \<open>\<^verbatim>\<open>g2d_mixer_irq_query\<close>: the \<^verbatim>\<open>int\<close> it returns, and the device after the call.\<close>

definition g2d_mixer_irq_query :: "g2d_regs_h \<Rightarrow> sunxi_g2d \<Rightarrow> int \<times> sunxi_g2d" where
  "g2d_mixer_irq_query K g2d =
     (let tmp = g2d_read g2d G2D_MIXER_INT in
      if tmp AND G2D_MIXER_INT_IRQ_PENDING K \<noteq> 0 then
        (1, g2d_clr_bits g2d G2D_MIXER_INT
              (G2D_MIXER_INT_IRQ_PENDING K OR G2D_MIXER_INT_FINISH_IRQ_EN K))
      else (0, g2d))"

definition g2d_mixer_reset :: "g2d_regs_h \<Rightarrow> sunxi_g2d \<Rightarrow> sunxi_g2d" where
  "g2d_mixer_reset K g2d =
     (let g2d = g2d_clr_bits g2d G2D_AHB_RESET (G2D_AHB_MIXER_RESET K) in
      g2d_set_bits g2d G2D_AHB_RESET (G2D_AHB_MIXER_RESET K))"

definition g2d_rot_reset :: "g2d_regs_h \<Rightarrow> sunxi_g2d \<Rightarrow> sunxi_g2d" where
  "g2d_rot_reset K g2d =
     (let g2d = g2d_clr_bits g2d G2D_AHB_RESET (G2D_AHB_MIXER_RESET K) in
      g2d_set_bits g2d G2D_AHB_RESET (G2D_AHB_MIXER_RESET K))"

section \<open>Kernel helper macros\<close>

text \<open>
  \<^verbatim>\<open>ALIGN(x, a)\<close> of linux/align.h is \<^verbatim>\<open>((x) + ((a) - 1)) & ~((a) - 1)\<close>, in the type of \<open>x\<close>.
\<close>

definition ALIGN :: "u32 \<Rightarrow> u32 \<Rightarrow> u32" where
  "ALIGN x a = (x + (a - 1)) AND NOT (a - 1)"

text \<open>
  \<^verbatim>\<open>FIELD_PREP(mask, val)\<close> of linux/bitfield.h is \<^verbatim>\<open>((val) << __bf_shf(mask)) & (mask)\<close>, where
  \<^verbatim>\<open>__bf_shf\<close> is the index of the lowest set bit of the mask.
\<close>

fun bf_shf_from :: "nat \<Rightarrow> u32 \<Rightarrow> nat \<Rightarrow> nat" where
  "bf_shf_from 0 msk i = i"
| "bf_shf_from (Suc n) msk i = (if bit msk i then i else bf_shf_from n msk (Suc i))"

definition bf_shf :: "u32 \<Rightarrow> nat" where
  "bf_shf msk = bf_shf_from 32 msk 0"

definition FIELD_PREP :: "u32 \<Rightarrow> u32 \<Rightarrow> u32" where
  "FIELD_PREP msk val = push_bit (bf_shf msk) val AND msk"

text \<open>\<^verbatim>\<open>clamp(val, lo, hi)\<close> of linux/minmax.h is \<^verbatim>\<open>min(max(val, lo), hi)\<close>.\<close>

definition clamp :: "u32 \<Rightarrow> u32 \<Rightarrow> u32 \<Rightarrow> u32" where
  "clamp val lo hi = min (max val lo) hi"

section \<open>Frames (sunxi\_g2d.h)\<close>

text \<open>
  The kernel's \<^verbatim>\<open>struct v4l2_rect\<close> (\<^verbatim>\<open>left\<close> and \<^verbatim>\<open>top\<close> are \<^verbatim>\<open>__s32\<close>, \<^verbatim>\<open>width\<close> and \<^verbatim>\<open>height\<close>
  are \<^verbatim>\<open>__u32\<close>) and the fields of \<^verbatim>\<open>struct v4l2_selection\<close> that the driver reads; the
  member \<^verbatim>\<open>r\<close> of the selection is \<open>rect\<close> here, and the members of the rectangle carry the
  prefix \<open>r_\<close>, so that \<^verbatim>\<open>sel.r.left\<close> reads \<open>r_left (rect sel)\<close>.
\<close>

record v4l2_rect =
  r_left :: s32
  r_top :: s32
  r_width :: u32
  r_height :: u32

record v4l2_selection =
  sel_type :: u32
  target :: u32
  rect :: v4l2_rect

datatype g2d_alpha_bld_mode = G2D_PIXEL_ALPHA | G2D_GLOBAL_ALPHA | G2D_MIXER_ALPHA

text \<open>The value of an enumerator of \<^verbatim>\<open>enum g2d_alpha_bld_mode\<close>.\<close>

fun alpha_bld_mode_val :: "g2d_alpha_bld_mode \<Rightarrow> u32" where
  "alpha_bld_mode_val G2D_PIXEL_ALPHA = 0"
| "alpha_bld_mode_val G2D_GLOBAL_ALPHA = 1"
| "alpha_bld_mode_val G2D_MIXER_ALPHA = 2"

record g2d_frame =
  v4l2_pix_fmt :: v4l2_pix_format
  premult_alpha :: bool
  alpha_bld_mode :: g2d_alpha_bld_mode
  alignment :: u32
  sel :: v4l2_selection

text \<open>\<^verbatim>\<open>struct sunxi_g2d_ctx\<close>: the two frames and the fill colour of a session.\<close>

record sunxi_g2d_ctx =
  src :: g2d_frame
  dst :: g2d_frame
  rectfill_color :: u32
  rectfill_color_alpha :: u32

section \<open>Programming the blender, the write-back and the video layer\<close>

text \<open>
  \<^verbatim>\<open>g2d_bldin_set\<close>.  \<^verbatim>\<open>rect_x\<close> and \<^verbatim>\<open>rect_y\<close> are the constants 0 of the source; the size word
  is \<^verbatim>\<open>((rect_h - 1) << 16) | (rect_w - 1)\<close> in \<^verbatim>\<open>uint32_t\<close>.
\<close>

definition g2d_bldin_set :: "g2d_regs_h \<Rightarrow> sunxi_g2d \<Rightarrow> g2d_frame \<Rightarrow> u32 \<Rightarrow> sunxi_g2d" where
  "g2d_bldin_set K g2d frm pipe_no =
     (let g2d =
            (if pipe_no = 0 then
               (let g2d = g2d_set_bits g2d BLD_EN_CTL (BLD_PIPE0_EN K) in
                if premult_alpha frm
                then g2d_set_bits g2d BLD_PREMUL_CTL (BLD_PREMUL_CTL_PIPE0_ALPHA_MODE K)
                else g2d)
             else
               (let g2d = g2d_set_bits g2d BLD_EN_CTL (BLD_PIPE1_EN K) in
                if premult_alpha frm
                then g2d_set_bits g2d BLD_PREMUL_CTL (BLD_PREMUL_CTL_PIPE1_ALPHA_MODE K)
                else g2d));
          rect_x = (0 :: u32);
          rect_y = (0 :: u32);
          rect_w = r_width (rect (sel frm));
          rect_h = r_height (rect (sel frm));
          tmp = push_bit 16 (rect_h - 1) OR (rect_w - 1);
          reg = (if pipe_no \<noteq> 0 then BLD_CH_ISIZE1 else BLD_CH_ISIZE0);
          g2d = g2d_write g2d reg tmp;
          tmp = push_bit 16 (if rect_y \<le> 0 then 0 else rect_y - 1)
                  OR (if rect_x \<le> 0 then 0 else rect_x - 1);
          reg = (if pipe_no \<noteq> 0 then BLD_CH_OFFSET1 else BLD_CH_OFFSET0)
      in g2d_write g2d reg tmp)"

text \<open>
  \<^verbatim>\<open>g2d_wb_set\<close> and \<^verbatim>\<open>g2d_vlayer_set\<close>, as compiled without \<^verbatim>\<open>CONFIG_ARCH_DMA_ADDR_T_64BIT\<close>
  (\<^verbatim>\<open>dma_addr_t\<close> and \<^verbatim>\<open>uintptr_t\<close> are 32 bits wide; the guarded block of \<^verbatim>\<open>g2d_vlayer_set\<close>
  holds a stray character and does not compile).  \<open>addr\<close> is the array \<^verbatim>\<open>addr[3]\<close>.

  The locals \<^verbatim>\<open>cw\<close>, \<^verbatim>\<open>cx\<close>, \<^verbatim>\<open>cy\<close> are declared without a value, and the 4:1:1 branch of each
  function leaves one of them unassigned: \<open>uninit\<close> is what the three hold before the
  branches run, and a branch overwrites the ones it assigns.  The branches that assign them
  (the \<^verbatim>\<open>if\<close> chain on \<^verbatim>\<open>fmt_hw_id\<close> of each function) are \<open>g2d_wb_set_chroma\<close> and
  \<open>g2d_vlayer_set_chroma\<close>, which return \<open>(cw, cx, cy)\<close>.
\<close>

definition g2d_wb_set_chroma :: "u32 \<Rightarrow> g2d_frame \<Rightarrow> u32 \<times> u32 \<times> u32 \<Rightarrow> u32 \<times> u32 \<times> u32" where
  "g2d_wb_set_chroma fmt_hw_id frm uninit =
     (let (cw, cx, cy) = uninit in
      if G2D_FORMAT_YUV422UVC_V1U1V0U0 \<le> fmt_hw_id \<and> fmt_hw_id \<le> G2D_FORMAT_YUV422_PLANAR
      then (drop_bit 1 (width (v4l2_pix_fmt frm)),
            signed_drop_bit 1 (r_left (rect (sel frm))),
            r_top (rect (sel frm)))
      else if G2D_FORMAT_YUV420UVC_V1U1V0U0 \<le> fmt_hw_id \<and> fmt_hw_id \<le> G2D_FORMAT_YUV420_PLANAR
      then (drop_bit 1 (width (v4l2_pix_fmt frm)),
            signed_drop_bit 1 (r_left (rect (sel frm))),
            signed_drop_bit 1 (r_top (rect (sel frm))))
      else if G2D_FORMAT_YUV411UVC_V1U1V0U0 \<le> fmt_hw_id \<and> fmt_hw_id \<le> G2D_FORMAT_YUV411_PLANAR
      then (signed_drop_bit 2 (r_left (rect (sel frm))), cx, r_top (rect (sel frm)))
      else (0, 0, 0))"

definition g2d_vlayer_set_chroma :: "u32 \<Rightarrow> g2d_frame \<Rightarrow> u32 \<times> u32 \<times> u32 \<Rightarrow> u32 \<times> u32 \<times> u32" where
  "g2d_vlayer_set_chroma fmt_hw_id frm uninit =
     (let (cw, cx, cy) = uninit in
      if G2D_FORMAT_YUV422UVC_V1U1V0U0 \<le> fmt_hw_id \<and> fmt_hw_id \<le> G2D_FORMAT_YUV422_PLANAR
      then (drop_bit 1 (r_width (rect (sel frm))),
            signed_drop_bit 1 (r_left (rect (sel frm))),
            r_top (rect (sel frm)))
      else if G2D_FORMAT_YUV420UVC_V1U1V0U0 \<le> fmt_hw_id \<and> fmt_hw_id \<le> G2D_FORMAT_YUV420_PLANAR
      then (drop_bit 1 (r_width (rect (sel frm))),
            signed_drop_bit 1 (r_left (rect (sel frm))),
            signed_drop_bit 1 (r_top (rect (sel frm))))
      else if G2D_FORMAT_YUV411UVC_V1U1V0U0 \<le> fmt_hw_id \<and> fmt_hw_id \<le> G2D_FORMAT_YUV411_PLANAR
      then (cw, signed_drop_bit 2 (r_left (rect (sel frm))), r_top (rect (sel frm)))
      else (0, 0, 0))"

definition g2d_wb_set ::
  "g2d_regs_h \<Rightarrow> g2d_fmt list \<Rightarrow> u32 \<times> u32 \<times> u32 \<Rightarrow> sunxi_g2d \<Rightarrow> g2d_frame \<Rightarrow>
     u32 \<times> u32 \<times> u32 \<Rightarrow> sunxi_g2d" where
  "g2d_wb_set K fmts uninit g2d frm addr =
     (let (addr_0, addr_1, addr_2) = addr;
          fmt_hw_id = v4l2_fmt_to_hw_id fmts (v4l2_pix_fmt frm);
          g2d = g2d_write g2d WB_ATT fmt_hw_id;
          tmp = FIELD_PREP (WB_SIZE_WIDTH K)
                  (if r_width (rect (sel frm)) = 0 then 0 else r_width (rect (sel frm)) - 1);
          tmp = tmp OR FIELD_PREP (WB_SIZE_HEIGHT K)
                  (if r_height (rect (sel frm)) = 0 then 0 else r_height (rect (sel frm)) - 1);
          g2d = g2d_write g2d WB_SIZE tmp;
          g2d = g2d_write g2d BLD_OUT_SIZE tmp;
          g2d = (if premult_alpha frm
                 then g2d_set_bits g2d BLD_OUT_COLOR (BLD_OUT_COLOR_PREMUL_EN K)
                 else g2d_clr_bits g2d BLD_OUT_COLOR (BLD_OUT_COLOR_PREMUL_EN K));
          (cw, cx, cy) = g2d_wb_set_chroma fmt_hw_id frm uninit;
          (ycnt, ucnt, vcnt) = fmt2yuvcnt fmt_hw_id;
          pitch0 = ALIGN (ycnt * width (v4l2_pix_fmt frm)) (alignment frm);
          g2d = g2d_write g2d WB_PITCH0 pitch0;
          pitch1 = ALIGN (ucnt * cw) (alignment frm);
          g2d = g2d_write g2d WB_PITCH1 pitch1;
          pitch2 = ALIGN (vcnt * cw) (alignment frm);
          g2d = g2d_write g2d WB_PITCH2 pitch2;
          addr0 = addr_0 + pitch0 * r_top (rect (sel frm)) + ycnt * r_left (rect (sel frm));
          g2d = g2d_write g2d WB_LADD0 (addr0 AND 0xFFFFFFFF);
          addr1 = addr_1 + pitch1 * cy + ucnt * cx;
          g2d = g2d_write g2d WB_LADD1 (addr1 AND 0xFFFFFFFF);
          addr2 = addr_2 + pitch2 * cy + vcnt * cx
      in g2d_write g2d WB_LADD2 (addr2 AND 0xFFFFFFFF))"

definition g2d_vlayer_set ::
  "g2d_regs_h \<Rightarrow> g2d_fmt list \<Rightarrow> u32 \<times> u32 \<times> u32 \<Rightarrow> sunxi_g2d \<Rightarrow> g2d_frame \<Rightarrow>
     u32 \<times> u32 \<times> u32 \<Rightarrow> u32 \<Rightarrow> sunxi_g2d" where
  "g2d_vlayer_set K fmts uninit g2d frm addr layer_alpha =
     (let (addr_0, addr_1, addr_2) = addr;
          tmp = FIELD_PREP (V0_ATTCTL_GLBALPHA K) layer_alpha;
          tmp = (if premult_alpha frm then tmp OR FIELD_PREP (V0_ATTCTL_PREMUL_CTL K) 0x2 else tmp);
          fmt_hw_id = v4l2_fmt_to_hw_id fmts (v4l2_pix_fmt frm);
          tmp = tmp OR FIELD_PREP (V0_ATTCTL_FBFMT K) fmt_hw_id;
          tmp = tmp OR FIELD_PREP (V0_ATTCTL_ALPHA_MODE K) (alpha_bld_mode_val (alpha_bld_mode frm));
          tmp = tmp OR FIELD_PREP (V0_ATTCTL_EN K) 1;
          g2d = g2d_write g2d V0_ATTCTL tmp;
          tmp = FIELD_PREP (V0_MBSIZE_WIDTH K)
                  (if r_width (rect (sel frm)) = 0 then 0 else r_width (rect (sel frm)) - 1);
          tmp = tmp OR FIELD_PREP (V0_MBSIZE_HEIGHT K)
                  (if r_height (rect (sel frm)) = 0 then 0 else r_height (rect (sel frm)) - 1);
          g2d = g2d_write g2d V0_MBSIZE tmp;
          g2d = g2d_write g2d V0_SIZE tmp;
          g2d = g2d_write g2d V0_COOR 0;
          (cw, cx, cy) = g2d_vlayer_set_chroma fmt_hw_id frm uninit;
          (ycnt, ucnt, vcnt) = fmt2yuvcnt fmt_hw_id;
          pitch0 = ALIGN (ycnt * width (v4l2_pix_fmt frm)) (alignment frm);
          g2d = g2d_write g2d V0_PITCH0 pitch0;
          pitch1 = ALIGN (ucnt * cw) (alignment frm);
          g2d = g2d_write g2d V0_PITCH1 pitch1;
          pitch2 = ALIGN (vcnt * cw) (alignment frm);
          g2d = g2d_write g2d V0_PITCH2 pitch2;
          addr0 = addr_0 + pitch0 * r_top (rect (sel frm)) + ycnt * r_left (rect (sel frm));
          g2d = g2d_write g2d V0_LADDR0 (addr0 AND 0xFFFFFFFF);
          addr1 = addr_1 + pitch1 * cy + ucnt * cx;
          g2d = g2d_write g2d V0_LADDR1 (addr1 AND 0xFFFFFFFF);
          addr2 = addr_2 + pitch2 * cy + vcnt * cx
      in g2d_write g2d V0_LADDR2 (addr2 AND 0xFFFFFFFF))"

section \<open>Format and selection ioctls\<close>

datatype errno = EINVAL

text \<open>
  What stops \<^verbatim>\<open>g2d_try_fmt\<close> short of its \<^verbatim>\<open>return 0\<close>: a read through a \<^verbatim>\<open>NULL\<close> pointer, or
  (for an empty table, which C cannot declare) a read of \<^verbatim>\<open>g2d_supported_fmts[0]\<close>.
\<close>

datatype g2d_fault = NULL_DEREF | OUT_OF_BOUNDS

text \<open>
  \<^verbatim>\<open>g2d_try_fmt\<close> on \<^verbatim>\<open>f->fmt.pix\<close>: the structure as the function leaves it, or the fault.
  The source assigns the fallback \<^verbatim>\<open>pixelformat\<close> when \<^verbatim>\<open>fmt\<close> is \<^verbatim>\<open>NULL\<close> and leaves \<^verbatim>\<open>fmt\<close> as
  it is; \<^verbatim>\<open>fmt->depth\<close> is read afterwards.
\<close>

definition g2d_try_fmt :: "g2d_fmt list \<Rightarrow> v4l2_pix_format \<Rightarrow> g2d_fault + v4l2_pix_format" where
  "g2d_try_fmt fmts pix =
     (let width0 = width pix;
          height0 = height pix;
          fmt = find_fmt fmts pix
      in if fmt = None \<and> fmts = [] then Inl OUT_OF_BOUNDS
         else
           (let pix = (if fmt = None then pix\<lparr>pixelformat := fourcc (fmts ! 0)\<rparr> else pix);
                width0 = clamp width0 8 2048;
                height0 = clamp height0 8 2048;
                pix = pix\<lparr>width := width0\<rparr>;
                pix = pix\<lparr>height := height0\<rparr>
            in case fmt of
                 None \<Rightarrow> Inl NULL_DEREF
               | Some i \<Rightarrow>
                   (let pix = pix\<lparr>bytesperline := drop_bit 3 (width pix * depth (fmts ! i))\<rparr>
                    in Inr (pix\<lparr>sizeimage := height pix * bytesperline pix\<rparr>))))"

text \<open>
  The values of the kernel's \<^verbatim>\<open>enum v4l2_buf_type\<close> and of its selection targets, and the
  macros \<^verbatim>\<open>V4L2_TYPE_IS_OUTPUT\<close> and \<^verbatim>\<open>V4L2_TYPE_IS_CAPTURE\<close> of videodev2.h.
\<close>

abbreviation (input) V4L2_BUF_TYPE_VIDEO_CAPTURE :: u32 where "V4L2_BUF_TYPE_VIDEO_CAPTURE \<equiv> 1"
abbreviation (input) V4L2_BUF_TYPE_VIDEO_OUTPUT :: u32 where "V4L2_BUF_TYPE_VIDEO_OUTPUT \<equiv> 2"
abbreviation (input) V4L2_SEL_TGT_CROP :: u32 where "V4L2_SEL_TGT_CROP \<equiv> 0x0000"
abbreviation (input) V4L2_SEL_TGT_CROP_DEFAULT :: u32 where "V4L2_SEL_TGT_CROP_DEFAULT \<equiv> 0x0001"
abbreviation (input) V4L2_SEL_TGT_CROP_BOUNDS :: u32 where "V4L2_SEL_TGT_CROP_BOUNDS \<equiv> 0x0002"
abbreviation (input) V4L2_SEL_TGT_COMPOSE :: u32 where "V4L2_SEL_TGT_COMPOSE \<equiv> 0x0100"
abbreviation (input) V4L2_SEL_TGT_COMPOSE_DEFAULT :: u32 where "V4L2_SEL_TGT_COMPOSE_DEFAULT \<equiv> 0x0101"
abbreviation (input) V4L2_SEL_TGT_COMPOSE_BOUNDS :: u32 where "V4L2_SEL_TGT_COMPOSE_BOUNDS \<equiv> 0x0102"

definition V4L2_TYPE_IS_OUTPUT :: "u32 \<Rightarrow> bool" where
  "V4L2_TYPE_IS_OUTPUT t = (t = 2 \<or> t = 10 \<or> t = 3 \<or> t = 8 \<or> t = 5 \<or> t = 7 \<or> t = 12 \<or> t = 14)"

definition V4L2_TYPE_IS_CAPTURE :: "u32 \<Rightarrow> bool" where
  "V4L2_TYPE_IS_CAPTURE t = (\<not> V4L2_TYPE_IS_OUTPUT t)"

text \<open>
  \<^verbatim>\<open>get_frame\<close> returns \<^verbatim>\<open>&ctx->src\<close>, \<^verbatim>\<open>&ctx->dst\<close> or \<^verbatim>\<open>ERR_PTR(-EINVAL)\<close>; the two pointers
  are \<open>SRC\<close> and \<open>DST\<close>, read with \<open>frame_at\<close> and written with \<open>frame_upd\<close>.
\<close>

datatype frame_ptr = SRC | DST

definition get_frame :: "u32 \<Rightarrow> errno + frame_ptr" where
  "get_frame t =
     (if t = V4L2_BUF_TYPE_VIDEO_OUTPUT then Inr SRC
      else if t = V4L2_BUF_TYPE_VIDEO_CAPTURE then Inr DST
      else Inl EINVAL)"

fun frame_at :: "sunxi_g2d_ctx \<Rightarrow> frame_ptr \<Rightarrow> g2d_frame" where
  "frame_at ctx SRC = src ctx"
| "frame_at ctx DST = dst ctx"

fun frame_upd :: "sunxi_g2d_ctx \<Rightarrow> frame_ptr \<Rightarrow> g2d_frame \<Rightarrow> sunxi_g2d_ctx" where
  "frame_upd ctx SRC frm = ctx\<lparr>src := frm\<rparr>"
| "frame_upd ctx DST frm = ctx\<lparr>dst := frm\<rparr>"

text \<open>
  \<^verbatim>\<open>g2d_g_selection\<close>: the selection structure as the call fills it in.
\<close>

definition g2d_g_selection :: "sunxi_g2d_ctx \<Rightarrow> v4l2_selection \<Rightarrow> errno + v4l2_selection" where
  "g2d_g_selection ctx s =
     (case get_frame (sel_type s) of
        Inl e \<Rightarrow> Inl e
      | Inr p \<Rightarrow>
          (let frm = frame_at ctx p in
           if (target s = V4L2_SEL_TGT_CROP \<or> target s = V4L2_SEL_TGT_CROP_DEFAULT
                 \<or> target s = V4L2_SEL_TGT_CROP_BOUNDS) \<and> \<not> V4L2_TYPE_IS_OUTPUT (sel_type s)
           then Inl EINVAL
           else if (target s = V4L2_SEL_TGT_COMPOSE \<or> target s = V4L2_SEL_TGT_COMPOSE_DEFAULT
                 \<or> target s = V4L2_SEL_TGT_COMPOSE_BOUNDS) \<and> \<not> V4L2_TYPE_IS_CAPTURE (sel_type s)
           then Inl EINVAL
           else if target s = V4L2_SEL_TGT_CROP \<or> target s = V4L2_SEL_TGT_COMPOSE
           then Inr (s\<lparr>rect := \<lparr>r_left = r_left (rect (sel frm)), r_top = r_top (rect (sel frm)),
                                 r_width = r_width (rect (sel frm)),
                                 r_height = r_height (rect (sel frm))\<rparr>\<rparr>)
           else if target s = V4L2_SEL_TGT_CROP_DEFAULT \<or> target s = V4L2_SEL_TGT_CROP_BOUNDS
                 \<or> target s = V4L2_SEL_TGT_COMPOSE_DEFAULT \<or> target s = V4L2_SEL_TGT_COMPOSE_BOUNDS
           then Inr (s\<lparr>rect := \<lparr>r_left = 0, r_top = 0,
                                 r_width = width (v4l2_pix_fmt frm),
                                 r_height = height (v4l2_pix_fmt frm)\<rparr>\<rparr>)
           else Inl EINVAL))"

text \<open>
  \<^verbatim>\<open>g2d_try_selection\<close>: \<open>Inr ()\<close> is \<^verbatim>\<open>return 0\<close>.  \<^verbatim>\<open>left\<close> and \<^verbatim>\<open>top\<close> are compared with 0 as
  signed; every other comparison has an unsigned operand and is unsigned, with \<^verbatim>\<open>width - 1\<close>
  and the sums computed in 32 bits.
\<close>

definition g2d_try_selection :: "sunxi_g2d_ctx \<Rightarrow> v4l2_selection \<Rightarrow> errno + unit" where
  "g2d_try_selection ctx s =
     (case get_frame (sel_type s) of
        Inl e \<Rightarrow> Inl e
      | Inr p \<Rightarrow>
          (let frm = frame_at ctx p in
           if V4L2_TYPE_IS_CAPTURE (sel_type s) \<and> target s \<noteq> V4L2_SEL_TGT_COMPOSE then Inl EINVAL
           else if \<not> V4L2_TYPE_IS_CAPTURE (sel_type s) \<and> V4L2_TYPE_IS_OUTPUT (sel_type s)
                     \<and> target s \<noteq> V4L2_SEL_TGT_CROP then Inl EINVAL
           else if r_top (rect s) <s 0 \<or> r_left (rect s) <s 0 then Inl EINVAL
           else if r_left (rect s) > width (v4l2_pix_fmt frm) - 1
                     \<or> r_top (rect s) > height (v4l2_pix_fmt frm) - 1 then Inl EINVAL
           else if r_left (rect s) + r_width (rect s) > width (v4l2_pix_fmt frm) - 1
           then Inl EINVAL
           else if r_top (rect s) + r_height (rect s) > height (v4l2_pix_fmt frm) - 1
           then Inl EINVAL
           else Inr ()))"

text \<open>\<^verbatim>\<open>g2d_s_selection\<close>: the context after the call, or the error it returns.\<close>

definition g2d_s_selection :: "sunxi_g2d_ctx \<Rightarrow> v4l2_selection \<Rightarrow> errno + sunxi_g2d_ctx" where
  "g2d_s_selection ctx s =
     (case g2d_try_selection ctx s of
        Inl e \<Rightarrow> Inl e
      | Inr _ \<Rightarrow>
          (case get_frame (sel_type s) of
             Inl e \<Rightarrow> Inl e
           | Inr p \<Rightarrow>
               (let frm = frame_at ctx p;
                    frm = frm\<lparr>sel := (sel frm)\<lparr>rect := (rect (sel frm))\<lparr>r_width := r_width (rect s)\<rparr>\<rparr>\<rparr>;
                    frm = frm\<lparr>sel := (sel frm)\<lparr>rect := (rect (sel frm))\<lparr>r_height := r_height (rect s)\<rparr>\<rparr>\<rparr>;
                    frm = frm\<lparr>sel := (sel frm)\<lparr>rect := (rect (sel frm))\<lparr>r_left := r_left (rect s)\<rparr>\<rparr>\<rparr>;
                    frm = frm\<lparr>sel := (sel frm)\<lparr>rect := (rect (sel frm))\<lparr>r_top := r_top (rect s)\<rparr>\<rparr>\<rparr>
                in Inr (frame_upd ctx p frm))))"

text \<open>
  \<^verbatim>\<open>g2d_open\<close>: the context a session starts with.  The frames are zeroed by \<^verbatim>\<open>kzalloc\<close> and
  filled in as the source does (\<^verbatim>\<open>ctx->dst = ctx->src\<close> comes before the second assignment to
  \<^verbatim>\<open>ctx->src.sel.type\<close>); the fill colour and its alpha are the defaults of their controls.
\<close>

definition g2d_open :: sunxi_g2d_ctx where
  "g2d_open =
     (let zero_rect = \<lparr>r_left = 0, r_top = 0, r_width = 0, r_height = 0\<rparr>;
          src0 = \<lparr>v4l2_pix_fmt = \<lparr>width = 800, height = 480, pixelformat = V4L2_PIX_FMT_XBGR32,
                                   bytesperline = 0, sizeimage = 0\<rparr>,
                  premult_alpha = True,
                  alpha_bld_mode = G2D_PIXEL_ALPHA,
                  alignment = 1,
                  sel = \<lparr>sel_type = V4L2_BUF_TYPE_VIDEO_OUTPUT, target = 0, rect = zero_rect\<rparr>\<rparr>;
          dst0 = src0;
          src0 = src0\<lparr>sel := (sel src0)\<lparr>sel_type := V4L2_BUF_TYPE_VIDEO_CAPTURE\<rparr>\<rparr>;
          dst0 = dst0\<lparr>sel := (sel dst0)\<lparr>rect := \<lparr>r_left = 200, r_top = 120,
                                                  r_width = 400, r_height = 240\<rparr>\<rparr>\<rparr>
      in \<lparr>src = src0, dst = dst0, rectfill_color = 0xffff0100, rectfill_color_alpha = 0xff\<rparr>)"

section \<open>Sample inputs\<close>

text \<open>
  Values at which the theorems below are instantiated; none of them is read from the
  sources.  \<open>sample_regs_h\<close> gives every mask of the absent register header a value (single
  bits for the flags, 13-bit fields for sizes).  \<open>yuv420_frame\<close> is a 640 by 480 frame whose
  \<^verbatim>\<open>pixelformat\<close> is \<^verbatim>\<open>V4L2_PIX_FMT_YUV420\<close>, with the selection \<open>(16, 16, 320, 240)\<close> and
  alignment 8.
\<close>

definition sample_regs_h :: g2d_regs_h where
  "sample_regs_h =
     \<lparr>G2D_AHB_MIXER_RESET = 0x1, G2D_AHB_ROT_RESET = 0x2,
      G2D_MIXER_INT_IRQ_PENDING = 0x1, G2D_MIXER_INT_FINISH_IRQ_EN = 0x10,
      BLD_PIPE0_EN = 0x100, BLD_PIPE1_EN = 0x200,
      BLD_PREMUL_CTL_PIPE0_ALPHA_MODE = 0x1, BLD_PREMUL_CTL_PIPE1_ALPHA_MODE = 0x2,
      BLD_OUT_COLOR_PREMUL_EN = 0x1,
      WB_SIZE_WIDTH = 0x1FFF, WB_SIZE_HEIGHT = 0x1FFF0000,
      V0_ATTCTL_GLBALPHA = 0xFF000000, V0_ATTCTL_PREMUL_CTL = 0x30000,
      V0_ATTCTL_FBFMT = 0x3F00, V0_ATTCTL_ALPHA_MODE = 0x6, V0_ATTCTL_EN = 0x1,
      V0_MBSIZE_WIDTH = 0x1FFF, V0_MBSIZE_HEIGHT = 0x1FFF0000\<rparr>"

definition yuv420_frame :: g2d_frame where
  "yuv420_frame =
     \<lparr>v4l2_pix_fmt = \<lparr>width = 640, height = 480, pixelformat = 0x32315559,
                      bytesperline = 0, sizeimage = 0\<rparr>,
      premult_alpha = True,
      alpha_bld_mode = G2D_PIXEL_ALPHA,
      alignment = 8,
      sel = \<lparr>sel_type = V4L2_BUF_TYPE_VIDEO_CAPTURE, target = V4L2_SEL_TGT_COMPOSE,
             rect = \<lparr>r_left = 16, r_top = 16, r_width = 320, r_height = 240\<rparr>\<rparr>\<rparr>"

section \<open>Theorems\<close>

subsection \<open>Format resolution\<close>

lemma find_fmt_loop_None:
  "find_fmt_loop fmts p i = None \<Longrightarrow> i \<le> j \<Longrightarrow> j < length fmts \<Longrightarrow>
     fourcc (fmts ! j) \<noteq> pixelformat p"
proof (induction fmts p i rule: find_fmt_loop.induct)
  case (1 fmts p i)
  from "1.prems" have lt: "i < length fmts" by simp
  from "1.prems"(1) lt have ne: "fourcc (fmts ! i) \<noteq> pixelformat p"
    by (subst (asm) find_fmt_loop.simps) (simp split: if_splits)
  from "1.prems"(1) lt ne have nx: "find_fmt_loop fmts p (i + 1) = None"
    by (subst (asm) find_fmt_loop.simps) simp
  show ?case
  proof (cases "i = j")
    case True
    with ne show ?thesis by simp
  next
    case False
    with "1.prems" have "i + 1 \<le> j" by simp
    with "1.IH" [OF lt ne nx] "1.prems"(3) show ?thesis by simp
  qed
qed

lemma find_fmt_loop_Some:
  "find_fmt_loop fmts p i = Some k \<Longrightarrow>
     i \<le> k \<and> k < length fmts \<and> fourcc (fmts ! k) = pixelformat p \<and>
     (\<forall>j. i \<le> j \<and> j < k \<longrightarrow> fourcc (fmts ! j) \<noteq> pixelformat p)"
proof (induction fmts p i rule: find_fmt_loop.induct)
  case (1 fmts p i)
  from "1.prems" have lt: "i < length fmts"
    by (subst (asm) find_fmt_loop.simps) (simp split: if_splits)
  show ?case
  proof (cases "fourcc (fmts ! i) = pixelformat p")
    case True
    with "1.prems" lt have "k = i"
      by (subst (asm) find_fmt_loop.simps) simp
    with True lt show ?thesis by auto
  next
    case False
    with "1.prems" lt have "find_fmt_loop fmts p (i + 1) = Some k"
      by (subst (asm) find_fmt_loop.simps) simp
    from "1.IH" [OF lt False this]
    have ih: "i + 1 \<le> k \<and> k < length fmts \<and> fourcc (fmts ! k) = pixelformat p \<and>
       (\<forall>j. i + 1 \<le> j \<and> j < k \<longrightarrow> fourcc (fmts ! j) \<noteq> pixelformat p)" .
    have "fourcc (fmts ! j) \<noteq> pixelformat p" if "i \<le> j" "j < k" for j
    proof (cases "j = i")
      case True
      with False show ?thesis by simp
    next
      case False
      with that ih show ?thesis by simp
    qed
    with ih show ?thesis by auto
  qed
qed

lemma find_fmt_shipped:
  "find_fmt g2d_supported_fmts p =
     (if pixelformat p = V4L2_PIX_FMT_XBGR32 then Some 0 else None)"
  by (simp add: find_fmt_def g2d_supported_fmts_def find_fmt_loop.simps [of _ _ 0]
        find_fmt_loop.simps [of _ _ "Suc 0"])

lemma hw_id_shipped: "v4l2_fmt_to_hw_id g2d_supported_fmts pix = G2D_FORMAT_BGRX8888"
  by (simp add: v4l2_fmt_to_hw_id_def find_fmt_shipped) (simp add: g2d_supported_fmts_def)

text \<open>
  C10.  With the table the driver ships (one entry, XBGR32 with hardware id
  \<open>G2D_FORMAT_BGRX8888\<close>, which is also the fallback id), the hardware-id lookup returns
  \<open>G2D_FORMAT_BGRX8888\<close> for every pixel format descriptor.
\<close>

theorem v4l2_fmt_to_hw_id_shipped_constant:
  "v4l2_fmt_to_hw_id g2d_supported_fmts pix = G2D_FORMAT_BGRX8888"
  by (rule hw_id_shipped)

text \<open>
  C6.  Format resolution never fails.  When an entry of the table has the descriptor's
  \<^verbatim>\<open>pixelformat\<close> as its \<^verbatim>\<open>fourcc\<close>, \<open>find_fmt\<close> returns the first such entry and the lookup
  returns that entry's hardware id; when no entry has, \<open>find_fmt\<close> returns \<^verbatim>\<open>NULL\<close> and the
  lookup returns the fallback \<open>G2D_FORMAT_BGRX8888\<close>.
\<close>

theorem v4l2_fmt_to_hw_id_resolves:
  "((\<exists>i<length fmts. fourcc (fmts ! i) = pixelformat pix) \<longrightarrow>
      (\<exists>i<length fmts. fourcc (fmts ! i) = pixelformat pix \<and>
          (\<forall>j<i. fourcc (fmts ! j) \<noteq> pixelformat pix) \<and>
          find_fmt fmts pix = Some i \<and>
          v4l2_fmt_to_hw_id fmts pix = hw_id (fmts ! i))) \<and>
   ((\<forall>i<length fmts. fourcc (fmts ! i) \<noteq> pixelformat pix) \<longrightarrow>
      find_fmt fmts pix = None \<and> v4l2_fmt_to_hw_id fmts pix = G2D_FORMAT_BGRX8888)"
proof (cases "find_fmt_loop fmts pix 0")
  case None
  then have "fourcc (fmts ! j) \<noteq> pixelformat pix" if "j < length fmts" for j
    using find_fmt_loop_None [of fmts pix 0 j] that by simp
  with None show ?thesis
    by (auto simp: find_fmt_def v4l2_fmt_to_hw_id_def)
next
  case (Some k)
  from find_fmt_loop_Some [OF this]
  have k: "k < length fmts" "fourcc (fmts ! k) = pixelformat pix"
    "\<forall>j<k. fourcc (fmts ! j) \<noteq> pixelformat pix"
    by simp_all
  from Some have "find_fmt fmts pix = Some k" "v4l2_fmt_to_hw_id fmts pix = hw_id (fmts ! k)"
    by (simp_all add: find_fmt_def v4l2_fmt_to_hw_id_def)
  with k show ?thesis by blast
qed

theorem v4l2_fmt_to_hw_id_resolves_witness:
  "v4l2_fmt_to_hw_id
     [\<lparr>fourcc = V4L2_PIX_FMT_XBGR32, depth = 32, hw_id = G2D_FORMAT_BGRX8888\<rparr>,
      \<lparr>fourcc = 0x32315559, depth = 12, hw_id = G2D_FORMAT_YUV420_PLANAR\<rparr>]
     \<lparr>width = 640, height = 480, pixelformat = 0x32315559, bytesperline = 0, sizeimage = 0\<rparr>
     = G2D_FORMAT_YUV420_PLANAR \<and>
   v4l2_fmt_to_hw_id
     [\<lparr>fourcc = V4L2_PIX_FMT_XBGR32, depth = 32, hw_id = G2D_FORMAT_BGRX8888\<rparr>,
      \<lparr>fourcc = 0x32315559, depth = 12, hw_id = G2D_FORMAT_YUV420_PLANAR\<rparr>]
     \<lparr>width = 640, height = 480, pixelformat = 0x33424752, bytesperline = 0, sizeimage = 0\<rparr>
     = G2D_FORMAT_BGRX8888"
proof -
  let ?fmts = "[\<lparr>fourcc = V4L2_PIX_FMT_XBGR32, depth = 32, hw_id = G2D_FORMAT_BGRX8888\<rparr>,
      \<lparr>fourcc = 0x32315559, depth = 12, hw_id = G2D_FORMAT_YUV420_PLANAR\<rparr>]"
  let ?yuv = "\<lparr>width = 640, height = 480, pixelformat = 0x32315559, bytesperline = 0, sizeimage = 0\<rparr>"
  let ?rgb = "\<lparr>width = 640, height = 480, pixelformat = 0x33424752, bytesperline = 0, sizeimage = 0\<rparr>"
  have m: "\<exists>i<length ?fmts. fourcc (?fmts ! i) = pixelformat ?yuv"
    by (rule exI [of _ 1]) simp
  have two: "i = 0 \<or> i = 1" if "i < length ?fmts" for i
    using that by auto
  have n: "\<forall>i<length ?fmts. fourcc (?fmts ! i) \<noteq> pixelformat ?rgb"
  proof (intro allI impI)
    fix i assume "i < length ?fmts"
    then consider "i = 0" | "i = 1" using two by blast
    then show "fourcc (?fmts ! i) \<noteq> pixelformat ?rgb" by cases simp_all
  qed
  from v4l2_fmt_to_hw_id_resolves [of ?fmts ?yuv] m
  obtain i where i: "i < length ?fmts" "fourcc (?fmts ! i) = pixelformat ?yuv"
    "v4l2_fmt_to_hw_id ?fmts ?yuv = hw_id (?fmts ! i)"
    by blast
  have "i = 1"
  proof (rule ccontr)
    assume "i \<noteq> 1"
    with two [OF i(1)] have "i = 0" by simp
    with i(2) show False by simp
  qed
  with i(3) have a: "v4l2_fmt_to_hw_id ?fmts ?yuv = G2D_FORMAT_YUV420_PLANAR" by simp
  from v4l2_fmt_to_hw_id_resolves [of ?fmts ?rgb] n
  have b: "v4l2_fmt_to_hw_id ?fmts ?rgb = G2D_FORMAT_BGRX8888" by blast
  from a b show ?thesis by simp
qed

subsection \<open>Channel layout\<close>

text \<open>
  C7.  \<open>fmt2yuvcnt\<close> gives every 32-bit format id a triple of byte counts: the
  interleaved-chroma 4:2:2, 4:2:0 and 4:1:1 ids map to \<open>(1, 2, 0)\<close>, the planar ones to
  \<open>(1, 1, 1)\<close>, every id above the last enumerator keeps the initial \<open>(0, 0, 0)\<close>, and
  whatever the id the result is one of the nine triples the table holds.
\<close>

theorem fmt2yuvcnt_total:
  "(format \<in> {G2D_FORMAT_YUV422UVC_V1U1V0U0, G2D_FORMAT_YUV422UVC_U1V1U0V0,
               G2D_FORMAT_YUV420UVC_V1U1V0U0, G2D_FORMAT_YUV420UVC_U1V1U0V0,
               G2D_FORMAT_YUV411UVC_V1U1V0U0, G2D_FORMAT_YUV411UVC_U1V1U0V0}
      \<longrightarrow> fmt2yuvcnt format = (1, 2, 0)) \<and>
   (format \<in> {G2D_FORMAT_YUV422_PLANAR, G2D_FORMAT_YUV420_PLANAR, G2D_FORMAT_YUV411_PLANAR}
      \<longrightarrow> fmt2yuvcnt format = (1, 1, 1)) \<and>
   (G2D_FORMAT_YUV10_444 < format \<longrightarrow> fmt2yuvcnt format = (0, 0, 0)) \<and>
   fmt2yuvcnt format \<in>
     {(0, 0, 0), (1, 0, 0), (2, 0, 0), (3, 0, 0), (4, 0, 0), (6, 0, 0),
      (1, 1, 1), (1, 2, 0), (2, 4, 0)}"
proof -
  have interleaved:
    "format \<in> {G2D_FORMAT_YUV422UVC_V1U1V0U0, G2D_FORMAT_YUV422UVC_U1V1U0V0,
               G2D_FORMAT_YUV420UVC_V1U1V0U0, G2D_FORMAT_YUV420UVC_U1V1U0V0,
               G2D_FORMAT_YUV411UVC_V1U1V0U0, G2D_FORMAT_YUV411UVC_U1V1U0V0}
      \<longrightarrow> fmt2yuvcnt format = (1, 2, 0)"
    by (auto simp: fmt2yuvcnt_def)
  have planar:
    "format \<in> {G2D_FORMAT_YUV422_PLANAR, G2D_FORMAT_YUV420_PLANAR, G2D_FORMAT_YUV411_PLANAR}
      \<longrightarrow> fmt2yuvcnt format = (1, 1, 1)"
    by (auto simp: fmt2yuvcnt_def)
  have beyond: "G2D_FORMAT_YUV10_444 < format \<longrightarrow> fmt2yuvcnt format = (0, 0, 0)"
    by (simp add: fmt2yuvcnt_def word_le_nat_alt word_less_nat_alt)
  have range: "fmt2yuvcnt format \<in>
     {(0, 0, 0), (1, 0, 0), (2, 0, 0), (3, 0, 0), (4, 0, 0), (6, 0, 0),
      (1, 1, 1), (1, 2, 0), (2, 4, 0)}"
    by (simp add: fmt2yuvcnt_def)
  from interleaved planar beyond range show ?thesis by blast
qed

theorem fmt2yuvcnt_total_witness:
  "fmt2yuvcnt G2D_FORMAT_YUV420UVC_V1U1V0U0 = (1, 2, 0) \<and>
   fmt2yuvcnt G2D_FORMAT_YUV420_PLANAR = (1, 1, 1) \<and>
   fmt2yuvcnt 0x40 = (0, 0, 0)"
  using fmt2yuvcnt_total [of G2D_FORMAT_YUV420UVC_V1U1V0U0]
    fmt2yuvcnt_total [of G2D_FORMAT_YUV420_PLANAR] fmt2yuvcnt_total [of "0x40"]
  by simp

subsection \<open>Interrupt query and resets\<close>

lemma and_not_or_left: "(x AND NOT p AND NOT e) AND p = (0 :: u32)"
  by (auto simp: bit_eq_iff bit_and_iff bit_or_iff bit_not_iff)

lemma and_not_or_right: "(x AND NOT p AND NOT e) AND e = (0 :: u32)"
  by (auto simp: bit_eq_iff bit_and_iff bit_or_iff bit_not_iff)

lemma disjoint_bits:
  assumes "m AND r = (0 :: u32)"
  shows "\<not> (bit m n \<and> bit r n)"
proof -
  have "bit (m AND r) n = (bit m n \<and> bit r n)" by (simp add: bit_and_iff)
  with assms show ?thesis by simp
qed

lemma clear_keeps_other: "m AND r = (0 :: u32) \<Longrightarrow> (x AND NOT m) AND r = x AND r"
  by (rule bit_eqI) (use disjoint_bits [of m r] in \<open>auto simp: bit_and_iff bit_not_iff\<close>)

lemma set_keeps_other: "m AND r = (0 :: u32) \<Longrightarrow> (x OR m) AND r = x AND r"
  by (rule bit_eqI) (use disjoint_bits [of m r] in \<open>auto simp: bit_and_iff bit_or_iff\<close>)

text \<open>
  C5.  \<open>g2d_mixer_irq_query\<close> returns 1 exactly when the pending bit of \<open>G2D_MIXER_INT\<close> is
  set.  When it is set, the call makes one register write, to \<open>G2D_MIXER_INT\<close>, of the old
  value with the pending and the enable bits cleared, so that both read as clear afterwards;
  when it is not set, the call returns 0 and leaves the device as it was.
\<close>

theorem g2d_mixer_irq_query_handled_iff_pending:
  "((fst (g2d_mixer_irq_query K g2d) = 1) =
      (g2d_read g2d G2D_MIXER_INT AND G2D_MIXER_INT_IRQ_PENDING K \<noteq> 0)) \<and>
   (g2d_read g2d G2D_MIXER_INT AND G2D_MIXER_INT_IRQ_PENDING K \<noteq> 0 \<longrightarrow>
      mmio_writes (snd (g2d_mixer_irq_query K g2d)) =
        mmio_writes g2d @
          [(G2D_MIXER_INT,
            base g2d G2D_MIXER_INT AND
              NOT (G2D_MIXER_INT_IRQ_PENDING K OR G2D_MIXER_INT_FINISH_IRQ_EN K))] \<and>
      base (snd (g2d_mixer_irq_query K g2d)) =
        (base g2d)(G2D_MIXER_INT :=
            base g2d G2D_MIXER_INT AND
              NOT (G2D_MIXER_INT_IRQ_PENDING K OR G2D_MIXER_INT_FINISH_IRQ_EN K)) \<and>
      g2d_read (snd (g2d_mixer_irq_query K g2d)) G2D_MIXER_INT
          AND G2D_MIXER_INT_IRQ_PENDING K = 0 \<and>
      g2d_read (snd (g2d_mixer_irq_query K g2d)) G2D_MIXER_INT
          AND G2D_MIXER_INT_FINISH_IRQ_EN K = 0) \<and>
   (g2d_read g2d G2D_MIXER_INT AND G2D_MIXER_INT_IRQ_PENDING K = 0 \<longrightarrow>
      g2d_mixer_irq_query K g2d = (0, g2d))"
  by (simp add: g2d_mixer_irq_query_def g2d_clr_bits_def g2d_write_def g2d_read_def Let_def
        and_not_or_left and_not_or_right)

theorem g2d_mixer_irq_query_handled_iff_pending_witness:
  "g2d_mixer_irq_query sample_regs_h
     \<lparr>base = (\<lambda>_. 0)(G2D_MIXER_INT := 0x10), mmio_writes = []\<rparr> =
     (0, \<lparr>base = (\<lambda>_. 0)(G2D_MIXER_INT := 0x10), mmio_writes = []\<rparr>) \<and>
   fst (g2d_mixer_irq_query sample_regs_h
     \<lparr>base = (\<lambda>_. 0)(G2D_MIXER_INT := 0x11), mmio_writes = []\<rparr>) = 1 \<and>
   mmio_writes (snd (g2d_mixer_irq_query sample_regs_h
     \<lparr>base = (\<lambda>_. 0)(G2D_MIXER_INT := 0x11), mmio_writes = []\<rparr>)) = [(G2D_MIXER_INT, 0)]"
proof -
  let ?idle = "\<lparr>base = (\<lambda>_. 0)(G2D_MIXER_INT := 0x10), mmio_writes = []\<rparr>"
  let ?done = "\<lparr>base = (\<lambda>_. 0)(G2D_MIXER_INT := 0x11), mmio_writes = []\<rparr>"
  have clear: "g2d_read ?idle G2D_MIXER_INT AND G2D_MIXER_INT_IRQ_PENDING sample_regs_h = 0"
    by (simp add: g2d_read_def sample_regs_h_def)
  have pending: "g2d_read ?done G2D_MIXER_INT AND G2D_MIXER_INT_IRQ_PENDING sample_regs_h \<noteq> 0"
    by (simp add: g2d_read_def sample_regs_h_def)
  from g2d_mixer_irq_query_handled_iff_pending [of sample_regs_h ?idle] clear
  have a: "g2d_mixer_irq_query sample_regs_h ?idle = (0, ?idle)"
    by blast
  note t = g2d_mixer_irq_query_handled_iff_pending [of sample_regs_h ?done]
  from t pending have b: "fst (g2d_mixer_irq_query sample_regs_h ?done) = 1"
    by blast
  from t pending
  have "mmio_writes (snd (g2d_mixer_irq_query sample_regs_h ?done)) =
        mmio_writes ?done @
          [(G2D_MIXER_INT,
            base ?done G2D_MIXER_INT AND
              NOT (G2D_MIXER_INT_IRQ_PENDING sample_regs_h
                     OR G2D_MIXER_INT_FINISH_IRQ_EN sample_regs_h))]"
    by blast
  then have c: "mmio_writes (snd (g2d_mixer_irq_query sample_regs_h ?done)) =
                  [(G2D_MIXER_INT, 0)]"
    by (simp add: sample_regs_h_def)
  from a b c show ?thesis by blast
qed

text \<open>
  C8.  \<open>g2d_rot_reset\<close> and \<open>g2d_mixer_reset\<close> return the same device from every device: both
  write \<open>G2D_AHB_RESET\<close> twice, first with the mixer reset bit cleared and then with it set.
  When the rotation reset bit is not part of the mixer reset mask, both written values and
  the final register agree with the old register on the rotation reset bit.
\<close>

theorem g2d_rot_reset_is_mixer_reset:
  "g2d_rot_reset K g2d = g2d_mixer_reset K g2d \<and>
   mmio_writes (g2d_rot_reset K g2d) =
     mmio_writes g2d @
       [(G2D_AHB_RESET, base g2d G2D_AHB_RESET AND NOT (G2D_AHB_MIXER_RESET K)),
        (G2D_AHB_RESET,
         (base g2d G2D_AHB_RESET AND NOT (G2D_AHB_MIXER_RESET K)) OR G2D_AHB_MIXER_RESET K)] \<and>
   (G2D_AHB_MIXER_RESET K AND G2D_AHB_ROT_RESET K = 0 \<longrightarrow>
      (base g2d G2D_AHB_RESET AND NOT (G2D_AHB_MIXER_RESET K)) AND G2D_AHB_ROT_RESET K =
        base g2d G2D_AHB_RESET AND G2D_AHB_ROT_RESET K \<and>
      base (g2d_rot_reset K g2d) G2D_AHB_RESET AND G2D_AHB_ROT_RESET K =
        base g2d G2D_AHB_RESET AND G2D_AHB_ROT_RESET K)"
proof -
  have same: "g2d_rot_reset K g2d = g2d_mixer_reset K g2d"
    by (simp add: g2d_rot_reset_def g2d_mixer_reset_def)
  have log: "mmio_writes (g2d_rot_reset K g2d) =
     mmio_writes g2d @
       [(G2D_AHB_RESET, base g2d G2D_AHB_RESET AND NOT (G2D_AHB_MIXER_RESET K)),
        (G2D_AHB_RESET,
         (base g2d G2D_AHB_RESET AND NOT (G2D_AHB_MIXER_RESET K)) OR G2D_AHB_MIXER_RESET K)]"
    by (simp add: g2d_rot_reset_def g2d_set_bits_def g2d_clr_bits_def g2d_write_def
          g2d_read_def Let_def)
  have final: "base (g2d_rot_reset K g2d) G2D_AHB_RESET =
      (base g2d G2D_AHB_RESET AND NOT (G2D_AHB_MIXER_RESET K)) OR G2D_AHB_MIXER_RESET K"
    by (simp add: g2d_rot_reset_def g2d_set_bits_def g2d_clr_bits_def g2d_write_def
          g2d_read_def Let_def)
  have rot: "(base g2d G2D_AHB_RESET AND NOT (G2D_AHB_MIXER_RESET K)) AND G2D_AHB_ROT_RESET K =
        base g2d G2D_AHB_RESET AND G2D_AHB_ROT_RESET K \<and>
      base (g2d_rot_reset K g2d) G2D_AHB_RESET AND G2D_AHB_ROT_RESET K =
        base g2d G2D_AHB_RESET AND G2D_AHB_ROT_RESET K"
    if "G2D_AHB_MIXER_RESET K AND G2D_AHB_ROT_RESET K = 0"
    unfolding final using clear_keeps_other [OF that] set_keeps_other [OF that] by simp
  from same log rot show ?thesis by blast
qed

theorem g2d_rot_reset_is_mixer_reset_witness:
  "g2d_rot_reset sample_regs_h \<lparr>base = (\<lambda>_. 0)(G2D_AHB_RESET := 0x3), mmio_writes = []\<rparr> =
     g2d_mixer_reset sample_regs_h \<lparr>base = (\<lambda>_. 0)(G2D_AHB_RESET := 0x3), mmio_writes = []\<rparr> \<and>
   mmio_writes
     (g2d_rot_reset sample_regs_h \<lparr>base = (\<lambda>_. 0)(G2D_AHB_RESET := 0x3), mmio_writes = []\<rparr>) =
     [(G2D_AHB_RESET, 0x2), (G2D_AHB_RESET, 0x3)] \<and>
   base (g2d_rot_reset sample_regs_h \<lparr>base = (\<lambda>_. 0)(G2D_AHB_RESET := 0x3), mmio_writes = []\<rparr>)
     G2D_AHB_RESET AND 0x2 = 0x2"
proof -
  let ?g = "\<lparr>base = (\<lambda>_. 0)(G2D_AHB_RESET := 0x3), mmio_writes = []\<rparr>"
  have disjoint: "G2D_AHB_MIXER_RESET sample_regs_h AND G2D_AHB_ROT_RESET sample_regs_h = 0"
    by (simp add: sample_regs_h_def)
  note t = g2d_rot_reset_is_mixer_reset [of sample_regs_h ?g]
  from t have same: "g2d_rot_reset sample_regs_h ?g = g2d_mixer_reset sample_regs_h ?g"
    by blast
  from t have "mmio_writes (g2d_rot_reset sample_regs_h ?g) =
     mmio_writes ?g @
       [(G2D_AHB_RESET, base ?g G2D_AHB_RESET AND NOT (G2D_AHB_MIXER_RESET sample_regs_h)),
        (G2D_AHB_RESET,
         (base ?g G2D_AHB_RESET AND NOT (G2D_AHB_MIXER_RESET sample_regs_h))
           OR G2D_AHB_MIXER_RESET sample_regs_h)]"
    by blast
  then have log: "mmio_writes (g2d_rot_reset sample_regs_h ?g) =
     [(G2D_AHB_RESET, 0x2), (G2D_AHB_RESET, 0x3)]"
    by (simp add: sample_regs_h_def)
  from t disjoint
  have "base (g2d_rot_reset sample_regs_h ?g) G2D_AHB_RESET AND G2D_AHB_ROT_RESET sample_regs_h =
        base ?g G2D_AHB_RESET AND G2D_AHB_ROT_RESET sample_regs_h"
    by blast
  then have rot: "base (g2d_rot_reset sample_regs_h ?g) G2D_AHB_RESET AND 0x2 = 0x2"
    by (simp add: sample_regs_h_def)
  from same log rot show ?thesis by blast
qed

subsection \<open>Plane geometry\<close>

lemma and_genmask_31_0: "x AND 0xFFFFFFFF = (x :: u32)"
proof -
  have "(0xFFFFFFFF :: u32) = - 1" by simp
  then show ?thesis by (simp only: and.right_neutral)
qed

lemma chroma_packed:
  assumes "\<not> (G2D_FORMAT_YUV422UVC_V1U1V0U0 \<le> i \<and> i \<le> G2D_FORMAT_YUV422_PLANAR)"
    and "\<not> (G2D_FORMAT_YUV420UVC_V1U1V0U0 \<le> i \<and> i \<le> G2D_FORMAT_YUV420_PLANAR)"
    and "\<not> (G2D_FORMAT_YUV411UVC_V1U1V0U0 \<le> i \<and> i \<le> G2D_FORMAT_YUV411_PLANAR)"
  shows "g2d_wb_set_chroma i frm u = (0, 0, 0)" and "g2d_vlayer_set_chroma i frm u' = (0, 0, 0)"
  using assms by (auto simp: g2d_wb_set_chroma_def g2d_vlayer_set_chroma_def split: prod.splits)

text \<open>
  Whatever the table, the write-back and the layer geometry agree for a frame whose format
  resolves outside the three ranges of sub-sampled YUV ids.
\<close>

lemma geometry_matches_off_yuv:
  assumes "i = v4l2_fmt_to_hw_id fmts (v4l2_pix_fmt frm)"
    and "\<not> (G2D_FORMAT_YUV422UVC_V1U1V0U0 \<le> i \<and> i \<le> G2D_FORMAT_YUV422_PLANAR)"
    and "\<not> (G2D_FORMAT_YUV420UVC_V1U1V0U0 \<le> i \<and> i \<le> G2D_FORMAT_YUV420_PLANAR)"
    and "\<not> (G2D_FORMAT_YUV411UVC_V1U1V0U0 \<le> i \<and> i \<le> G2D_FORMAT_YUV411_PLANAR)"
  shows "base (g2d_wb_set K fmts u g2d frm addr) WB_PITCH0 =
           base (g2d_vlayer_set K fmts u' g2d' frm addr layer_alpha) V0_PITCH0"
    and "base (g2d_wb_set K fmts u g2d frm addr) WB_PITCH1 =
           base (g2d_vlayer_set K fmts u' g2d' frm addr layer_alpha) V0_PITCH1"
    and "base (g2d_wb_set K fmts u g2d frm addr) WB_PITCH2 =
           base (g2d_vlayer_set K fmts u' g2d' frm addr layer_alpha) V0_PITCH2"
    and "base (g2d_wb_set K fmts u g2d frm addr) WB_LADD0 =
           base (g2d_vlayer_set K fmts u' g2d' frm addr layer_alpha) V0_LADDR0"
    and "base (g2d_wb_set K fmts u g2d frm addr) WB_LADD1 =
           base (g2d_vlayer_set K fmts u' g2d' frm addr layer_alpha) V0_LADDR1"
    and "base (g2d_wb_set K fmts u g2d frm addr) WB_LADD2 =
           base (g2d_vlayer_set K fmts u' g2d' frm addr layer_alpha) V0_LADDR2"
proof -
  from assms(2-4)
  have c: "g2d_wb_set_chroma i frm u = (0, 0, 0)" "g2d_vlayer_set_chroma i frm u' = (0, 0, 0)"
    by (rule chroma_packed)+
  show "base (g2d_wb_set K fmts u g2d frm addr) WB_PITCH0 =
           base (g2d_vlayer_set K fmts u' g2d' frm addr layer_alpha) V0_PITCH0"
    and "base (g2d_wb_set K fmts u g2d frm addr) WB_PITCH1 =
           base (g2d_vlayer_set K fmts u' g2d' frm addr layer_alpha) V0_PITCH1"
    and "base (g2d_wb_set K fmts u g2d frm addr) WB_PITCH2 =
           base (g2d_vlayer_set K fmts u' g2d' frm addr layer_alpha) V0_PITCH2"
    and "base (g2d_wb_set K fmts u g2d frm addr) WB_LADD0 =
           base (g2d_vlayer_set K fmts u' g2d' frm addr layer_alpha) V0_LADDR0"
    and "base (g2d_wb_set K fmts u g2d frm addr) WB_LADD1 =
           base (g2d_vlayer_set K fmts u' g2d' frm addr layer_alpha) V0_LADDR1"
    and "base (g2d_wb_set K fmts u g2d frm addr) WB_LADD2 =
           base (g2d_vlayer_set K fmts u' g2d' frm addr layer_alpha) V0_LADDR2"
    using c assms(1)
    by (simp_all add: g2d_wb_set_def g2d_vlayer_set_def g2d_write_def Let_def case_prod_beta)
qed

lemma chroma_shipped:
  "g2d_wb_set_chroma G2D_FORMAT_BGRX8888 frm u = (0, 0, 0)"
  "g2d_vlayer_set_chroma G2D_FORMAT_BGRX8888 frm u' = (0, 0, 0)"
  by (simp_all add: chroma_packed)

lemma g2d_wb_set_shipped_geometry:
  "base (g2d_wb_set K g2d_supported_fmts u g2d frm addr) WB_PITCH0 =
     ALIGN (4 * width (v4l2_pix_fmt frm)) (alignment frm)"
  "base (g2d_wb_set K g2d_supported_fmts u g2d frm addr) WB_PITCH1 = ALIGN 0 (alignment frm)"
  "base (g2d_wb_set K g2d_supported_fmts u g2d frm addr) WB_PITCH2 = ALIGN 0 (alignment frm)"
  "base (g2d_wb_set K g2d_supported_fmts u g2d frm addr) WB_LADD0 =
     fst addr + ALIGN (4 * width (v4l2_pix_fmt frm)) (alignment frm) * r_top (rect (sel frm))
       + 4 * r_left (rect (sel frm))"
  "base (g2d_wb_set K g2d_supported_fmts u g2d frm addr) WB_LADD1 = fst (snd addr)"
  "base (g2d_wb_set K g2d_supported_fmts u g2d frm addr) WB_LADD2 = snd (snd addr)"
  by (simp_all add: g2d_wb_set_def g2d_write_def hw_id_shipped chroma_shipped fmt2yuvcnt_def
        and_genmask_31_0 Let_def case_prod_beta)

lemma g2d_vlayer_set_shipped_geometry:
  "base (g2d_vlayer_set K g2d_supported_fmts u g2d frm addr a) V0_PITCH0 =
     ALIGN (4 * width (v4l2_pix_fmt frm)) (alignment frm)"
  "base (g2d_vlayer_set K g2d_supported_fmts u g2d frm addr a) V0_PITCH1 = ALIGN 0 (alignment frm)"
  "base (g2d_vlayer_set K g2d_supported_fmts u g2d frm addr a) V0_PITCH2 = ALIGN 0 (alignment frm)"
  "base (g2d_vlayer_set K g2d_supported_fmts u g2d frm addr a) V0_LADDR0 =
     fst addr + ALIGN (4 * width (v4l2_pix_fmt frm)) (alignment frm) * r_top (rect (sel frm))
       + 4 * r_left (rect (sel frm))"
  "base (g2d_vlayer_set K g2d_supported_fmts u g2d frm addr a) V0_LADDR1 = fst (snd addr)"
  "base (g2d_vlayer_set K g2d_supported_fmts u g2d frm addr a) V0_LADDR2 = snd (snd addr)"
  by (simp_all add: g2d_vlayer_set_def g2d_write_def hw_id_shipped chroma_shipped fmt2yuvcnt_def
        and_genmask_31_0 Let_def case_prod_beta)

text \<open>
  C2.  For every frame descriptor and every triple of plane base addresses, the three
  pitches and the three plane addresses that \<open>g2d_wb_set\<close> writes to the write-back
  registers are the ones \<open>g2d_vlayer_set\<close> writes to the layer registers, whatever the
  device, the layer alpha and the initial contents of the locals.  The functions are the
  driver's, with the table it ships: every frame resolves to \<open>G2D_FORMAT_BGRX8888\<close>, for
  which both take the branch that zeroes \<^verbatim>\<open>cw\<close>, \<^verbatim>\<open>cx\<close> and \<^verbatim>\<open>cy\<close>.
\<close>

theorem g2d_wb_set_geometry_matches_vlayer:
  "base (g2d_wb_set K g2d_supported_fmts u g2d frm addr) WB_PITCH0 =
     base (g2d_vlayer_set K g2d_supported_fmts u' g2d' frm addr layer_alpha) V0_PITCH0 \<and>
   base (g2d_wb_set K g2d_supported_fmts u g2d frm addr) WB_PITCH1 =
     base (g2d_vlayer_set K g2d_supported_fmts u' g2d' frm addr layer_alpha) V0_PITCH1 \<and>
   base (g2d_wb_set K g2d_supported_fmts u g2d frm addr) WB_PITCH2 =
     base (g2d_vlayer_set K g2d_supported_fmts u' g2d' frm addr layer_alpha) V0_PITCH2 \<and>
   base (g2d_wb_set K g2d_supported_fmts u g2d frm addr) WB_LADD0 =
     base (g2d_vlayer_set K g2d_supported_fmts u' g2d' frm addr layer_alpha) V0_LADDR0 \<and>
   base (g2d_wb_set K g2d_supported_fmts u g2d frm addr) WB_LADD1 =
     base (g2d_vlayer_set K g2d_supported_fmts u' g2d' frm addr layer_alpha) V0_LADDR1 \<and>
   base (g2d_wb_set K g2d_supported_fmts u g2d frm addr) WB_LADD2 =
     base (g2d_vlayer_set K g2d_supported_fmts u' g2d' frm addr layer_alpha) V0_LADDR2"
  by (simp only: g2d_wb_set_shipped_geometry g2d_vlayer_set_shipped_geometry)

text \<open>
  The branches for the sub-sampled formats are not the same in the two functions: at the
  id \<open>G2D_FORMAT_YUV420_PLANAR\<close> the write-back branch halves the width of the frame and the
  layer branch the width of the selection.  With the table the driver ships no frame
  resolves to that id, so neither branch runs.
\<close>

lemma chroma_yuv420:
  "g2d_wb_set_chroma G2D_FORMAT_YUV420_PLANAR yuv420_frame u = (320, 8, 8)"
  "g2d_vlayer_set_chroma G2D_FORMAT_YUV420_PLANAR yuv420_frame u = (160, 8, 8)"
  by (simp_all add: g2d_wb_set_chroma_def g2d_vlayer_set_chroma_def yuv420_frame_def
        split: prod.splits)





subsection \<open>Size registers\<close>

lemma g2d_open_accepts_empty_selection:
  "g2d_s_selection g2d_open
     \<lparr>sel_type = V4L2_BUF_TYPE_VIDEO_CAPTURE, target = V4L2_SEL_TGT_COMPOSE,
      rect = \<lparr>r_left = 0, r_top = 0, r_width = 0, r_height = 0\<rparr>\<rparr> =
   Inr (g2d_open\<lparr>dst := (dst g2d_open)\<lparr>sel := (sel (dst g2d_open))
          \<lparr>rect := \<lparr>r_left = 0, r_top = 0, r_width = 0, r_height = 0\<rparr>\<rparr>\<rparr>\<rparr>)"
  by (simp add: g2d_s_selection_def g2d_try_selection_def get_frame_def
        g2d_open_def V4L2_TYPE_IS_CAPTURE_def V4L2_TYPE_IS_OUTPUT_def Let_def)

lemma g2d_bldin_set_isize:
  "base (g2d_bldin_set K g2d frm pipe_no)
     (if pipe_no \<noteq> 0 then BLD_CH_ISIZE1 else BLD_CH_ISIZE0) =
   push_bit 16 (r_height (rect (sel frm)) - 1) OR (r_width (rect (sel frm)) - 1)"
  by (simp add: g2d_bldin_set_def g2d_write_def g2d_set_bits_def g2d_read_def Let_def)

text \<open>
  C4, evaluated.  \<open>g2d_s_selection\<close> accepts the empty selection \<open>(0, 0, 0, 0)\<close> on the frame
  \<open>g2d_open\<close> sets up.  For the destination frame it leaves, \<open>g2d_bldin_set\<close> writes
  \<open>0xFFFFFFFF\<close> to \<open>BLD_CH_ISIZE0\<close>, while \<open>g2d_wb_set\<close> writes 0 to \<open>WB_SIZE\<close> and
  \<open>BLD_OUT_SIZE\<close> and \<open>g2d_vlayer_set\<close> writes 0 to \<open>V0_MBSIZE\<close>.
\<close>

theorem g2d_bldin_set_zero_size_underflows:
  "(case g2d_s_selection g2d_open
           \<lparr>sel_type = V4L2_BUF_TYPE_VIDEO_CAPTURE, target = V4L2_SEL_TGT_COMPOSE,
            rect = \<lparr>r_left = 0, r_top = 0, r_width = 0, r_height = 0\<rparr>\<rparr> of
      Inl e \<Rightarrow> False
    | Inr ctx \<Rightarrow>
        base (g2d_bldin_set K g2d (dst ctx) 0) BLD_CH_ISIZE0 = 0xFFFFFFFF \<and>
        base (g2d_wb_set K g2d_supported_fmts uninit g2d (dst ctx) addr) WB_SIZE = 0 \<and>
        base (g2d_wb_set K g2d_supported_fmts uninit g2d (dst ctx) addr) BLD_OUT_SIZE = 0 \<and>
        base (g2d_vlayer_set K g2d_supported_fmts uninit g2d (dst ctx) addr layer_alpha)
          V0_MBSIZE = 0)"
proof -
  let ?ctx = "g2d_open\<lparr>dst := (dst g2d_open)\<lparr>sel := (sel (dst g2d_open))
          \<lparr>rect := \<lparr>r_left = 0, r_top = 0, r_width = 0, r_height = 0\<rparr>\<rparr>\<rparr>\<rparr>"
  have w: "r_width (rect (sel (dst ?ctx))) = 0" and h: "r_height (rect (sel (dst ?ctx))) = 0"
    by simp_all
  have a: "base (g2d_bldin_set K g2d (dst ?ctx) 0) BLD_CH_ISIZE0 = 0xFFFFFFFF"
    using g2d_bldin_set_isize [of K g2d "dst ?ctx" 0] w h by simp
  have b: "base (g2d_wb_set K g2d_supported_fmts uninit g2d (dst ?ctx) addr) WB_SIZE = 0"
    using w h
    by (simp add: g2d_wb_set_def g2d_write_def g2d_set_bits_def g2d_clr_bits_def g2d_read_def
        FIELD_PREP_def Let_def split: prod.splits)
  have c: "base (g2d_wb_set K g2d_supported_fmts uninit g2d (dst ?ctx) addr) BLD_OUT_SIZE = 0"
    using w h
    by (simp add: g2d_wb_set_def g2d_write_def g2d_set_bits_def g2d_clr_bits_def g2d_read_def
        FIELD_PREP_def Let_def split: prod.splits)
  have d: "base (g2d_vlayer_set K g2d_supported_fmts uninit g2d (dst ?ctx) addr layer_alpha)
          V0_MBSIZE = 0"
    using w h
    by (simp add: g2d_vlayer_set_def g2d_write_def g2d_read_def
        FIELD_PREP_def Let_def split: prod.splits)
  from a b c d show ?thesis
    by (simp only: g2d_open_accepts_empty_selection sum.case)
qed

subsection \<open>Selection rectangles\<close>

lemma word_pred_less: "w \<noteq> 0 \<Longrightarrow> w - 1 < (w :: u32)"
  by (simp add: word_less_nat_alt measure_unat)

lemma g2d_try_selection_full_frame:
  assumes "get_frame (sel_type s) = Inr p"
    and "width (v4l2_pix_fmt (frame_at ctx p)) \<noteq> 0"
    and "r_left (rect s) = 0"
    and "r_width (rect s) = width (v4l2_pix_fmt (frame_at ctx p))"
  shows "g2d_try_selection ctx s = Inl EINVAL"
  using assms word_pred_less [of "width (v4l2_pix_fmt (frame_at ctx p))"]
  by (simp add: g2d_try_selection_def Let_def)

lemma g2d_try_selection_left_at_width:
  assumes "get_frame (sel_type s) = Inr p"
    and "width (v4l2_pix_fmt (frame_at ctx p)) \<noteq> 0"
    and "r_left (rect s) = width (v4l2_pix_fmt (frame_at ctx p))"
  shows "g2d_try_selection ctx s = Inl EINVAL"
  using assms word_pred_less [of "width (v4l2_pix_fmt (frame_at ctx p))"]
  by (simp add: g2d_try_selection_def Let_def)

text \<open>
  C1, evaluated.  On the 800 by 480 frame \<open>g2d_open\<close> sets up, \<open>g2d_g_selection\<close> reports
  \<open>(0, 0, 800, 480)\<close> as the bounds of the compose rectangle, and \<open>g2d_try_selection\<close> and
  \<open>g2d_s_selection\<close> reject that rectangle with \<open>EINVAL\<close>.
\<close>

theorem g2d_try_selection_rejects_reported_bounds:
  "g2d_g_selection g2d_open
     \<lparr>sel_type = V4L2_BUF_TYPE_VIDEO_CAPTURE, target = V4L2_SEL_TGT_COMPOSE_BOUNDS,
      rect = \<lparr>r_left = 0, r_top = 0, r_width = 0, r_height = 0\<rparr>\<rparr> =
     Inr \<lparr>sel_type = V4L2_BUF_TYPE_VIDEO_CAPTURE, target = V4L2_SEL_TGT_COMPOSE_BOUNDS,
          rect = \<lparr>r_left = 0, r_top = 0, r_width = 800, r_height = 480\<rparr>\<rparr> \<and>
   g2d_try_selection g2d_open
     \<lparr>sel_type = V4L2_BUF_TYPE_VIDEO_CAPTURE, target = V4L2_SEL_TGT_COMPOSE,
      rect = \<lparr>r_left = 0, r_top = 0, r_width = 800, r_height = 480\<rparr>\<rparr> = Inl EINVAL \<and>
   g2d_s_selection g2d_open
     \<lparr>sel_type = V4L2_BUF_TYPE_VIDEO_CAPTURE, target = V4L2_SEL_TGT_COMPOSE,
      rect = \<lparr>r_left = 0, r_top = 0, r_width = 800, r_height = 480\<rparr>\<rparr> = Inl EINVAL"
  by (simp add: g2d_g_selection_def g2d_s_selection_def g2d_try_selection_def get_frame_def
        g2d_open_def V4L2_TYPE_IS_CAPTURE_def V4L2_TYPE_IS_OUTPUT_def Let_def)

subsection \<open>Format negotiation\<close>

lemma g2d_try_fmt_unmatched:
  "pixelformat pix \<noteq> V4L2_PIX_FMT_XBGR32 \<Longrightarrow> g2d_try_fmt g2d_supported_fmts pix = Inl NULL_DEREF"
  by (simp add: g2d_try_fmt_def find_fmt_shipped Let_def) (simp add: g2d_supported_fmts_def)

lemma g2d_try_fmt_matched:
  "g2d_try_fmt g2d_supported_fmts
     \<lparr>width = 800, height = 480, pixelformat = V4L2_PIX_FMT_XBGR32,
      bytesperline = 0, sizeimage = 0\<rparr> =
   Inr \<lparr>width = 800, height = 480, pixelformat = V4L2_PIX_FMT_XBGR32,
        bytesperline = 3200, sizeimage = 1536000\<rparr>"
  by (simp add: g2d_try_fmt_def find_fmt_shipped Let_def clamp_def)
     (simp add: g2d_supported_fmts_def drop_bit_eq_div)

text \<open>
  C9, evaluated.  For a request whose \<^verbatim>\<open>pixelformat\<close> (here \<^verbatim>\<open>V4L2_PIX_FMT_RGB24\<close>) is not in the
  table, \<open>find_fmt\<close> returns \<^verbatim>\<open>NULL\<close>, the function stores the fallback \<^verbatim>\<open>pixelformat\<close> and then
  reads \<^verbatim>\<open>fmt->depth\<close> through the \<^verbatim>\<open>NULL\<close> pointer.
\<close>

theorem g2d_try_fmt_unmatched_reads_null:
  "g2d_try_fmt g2d_supported_fmts
     \<lparr>width = 800, height = 480, pixelformat = 0x33424752, bytesperline = 0, sizeimage = 0\<rparr> =
   Inl NULL_DEREF"
  by (simp add: g2d_try_fmt_def find_fmt_def g2d_supported_fmts_def
        find_fmt_loop.simps [of _ _ 0] find_fmt_loop.simps [of _ _ "Suc 0"] Let_def)

end
